theory Spec2Isabelle
  imports Complex_Main
begin

section \<open>The data of \<open>backend/llm/base.py\<close>\<close>

text \<open>
  The module defines one class, \<open>BaseBrainPicking\<close>, a pydantic model. Python values
  that may be \<open>None\<close> are options; strings are \<open>string\<close>; the \<open>float\<close> temperature
  is a real number (the code only stores it); Python's unbounded \<open>int\<close> is \<open>int\<close>.

  A method takes \<open>self\<close> first, as in the source, and returns its result together with
  the instance as the body leaves it, so that what a method does to the instance is part
  of its value. Since Isabelle names start with a letter, \<open>_determine_api_key\<close> is
  \<open>determine_api_key\<close>, \<open>__init__\<close> is \<open>init\<close>, and so on.
\<close>

text \<open>
  Modelled from the spec: \<open>BrainSettings\<close> (\<open>models/settings.py\<close>) is not part of the
  sources at hand. The class reads one attribute of it, \<open>openai_api_key\<close>, which the
  spec calls \<open>defaultApiKey: string\<close>, derived from the environment.
\<close>

record BrainSettings =
  openai_api_key :: string

text \<open>
  A Python object as far as the callbacks need it: a class object, or an instance of
  a class, each with the name of the class. Line 55 writes the name
  \<open>AsyncIteratorCallbackHandler\<close> with no call, which is the class object; the return
  annotation of line 52, \<open>List[AsyncCallbackHandler]\<close>, asks for instances.
\<close>

datatype py_object = Class_object string | Instance_of string

text \<open>
  The exceptions: the two the source raises or meets by name lookup, and the
  \<open>ValueError\<close> of pydantic's \<open>BaseModel.__setattr__\<close>, kept with the name of the
  attribute.
\<close>

datatype error = NotImplementedError string | AttributeError string | ValueError string

text \<open>
  The instance: the class attributes of lines 23 to 32, and the two attributes that
  \<open>__init__\<close> assigns (lines 60 and 64). Nothing reads these two before \<open>__init__\<close>
  has assigned them (a subclass that declares them as fields gives them values at
  line 58, which lines 60 and 64 replace); until then the record holds \<open>None\<close> for
  them.
\<close>

record BaseBrainPicking =
  brain_settings :: BrainSettings
  model_name :: string
  temperature :: real
  chat_id :: "string option"
  brain_id :: "string option"
  max_tokens :: int
  streaming :: bool
  user_openai_api_key :: "string option"
  openai_api_key :: "string option"
  callbacks :: "py_object list option"

text \<open>
  The pydantic fields of the class: the seven annotated attributes and
  \<open>brain_settings\<close>, which pydantic infers from its value (line 23). A subclass has
  these and the fields it declares itself; below, \<open>extra\<close> is the list of those, empty
  for \<open>BaseBrainPicking\<close> itself. The subclass is taken to add fields only: it keeps
  the defaults, \<open>Config\<close> and the functions of the class.
\<close>

definition BaseBrainPicking_fields :: "string list" where
  "BaseBrainPicking_fields =
     [''model_name'', ''temperature'', ''chat_id'', ''brain_id'', ''max_tokens'',
      ''streaming'', ''user_openai_api_key'', ''brain_settings'']"

text \<open>
  A number passed for a numeric field, and what pydantic's validators make of it:
  \<open>int_validator\<close> keeps an \<open>int\<close> and applies \<open>int()\<close> to the rest, which truncates a
  float towards zero; \<open>float_validator\<close> keeps a float and applies \<open>float()\<close> to the
  rest. With floats as reals there is no rounding and no infinity, so neither fails.
\<close>

datatype number = PyBool bool | PyInt int | PyFloat real

fun int_validator :: "number \<Rightarrow> int" where
  "int_validator (PyInt n) = n"
| "int_validator (PyBool b) = (if b then 1 else 0)"
| "int_validator (PyFloat x) = (if 0 \<le> x then \<lfloor>x\<rfloor> else \<lceil>x\<rceil>)"

fun float_validator :: "number \<Rightarrow> real" where
  "float_validator (PyFloat x) = x"
| "float_validator (PyInt n) = of_int n"
| "float_validator (PyBool b) = (if b then 1 else 0)"

text \<open>
  The keyword arguments \<open>**data\<close> of the constructor: \<open>None\<close> is a keyword that is not
  passed (for the three attributes whose default is \<open>None\<close>, also one passed as \<open>None\<close>).
  The two numeric keywords are numbers; each other keyword is a value of the type of
  its field, which pydantic stores as it is. Values of other types, which pydantic
  converts or refuses at line 58, are not modelled.
\<close>

record data =
  data_brain_settings :: "BrainSettings option"
  data_model_name :: "string option"
  data_temperature :: "number option"
  data_chat_id :: "string option"
  data_brain_id :: "string option"
  data_max_tokens :: "number option"
  data_streaming :: "bool option"
  data_user_openai_api_key :: "string option"

section \<open>The configuration resolver (lines 36 to 64)\<close>

definition determine_api_key ::
  "BaseBrainPicking \<Rightarrow> string option \<Rightarrow> string option \<Rightarrow> string option \<times> BaseBrainPicking"
where
  "determine_api_key self api_key user_api_key =
     (if user_api_key \<noteq> None then (user_api_key, self) else (api_key, self))"

text \<open>
  \<open>streaming_compatible_models\<close> is a constant of \<open>utils/constants.py\<close>, which is not
  among the sources: it is a parameter here. \<open>in\<close> on a list is membership.
\<close>

definition determine_streaming ::
  "string list \<Rightarrow> BaseBrainPicking \<Rightarrow> string \<Rightarrow> bool \<Rightarrow> bool \<times> BaseBrainPicking"
where
  "determine_streaming streaming_compatible_models self name requested =
     (if name \<in> set streaming_compatible_models \<and> requested then (True, self)
      else (False, self))"

text \<open>The body has no \<open>else\<close>: without streaming the call falls off its end and returns \<open>None\<close>.\<close>

definition determine_callback_array ::
  "BaseBrainPicking \<Rightarrow> bool \<Rightarrow> py_object list option \<times> BaseBrainPicking"
where
  "determine_callback_array self enabled =
     (if enabled then (Some [Class_object ''AsyncIteratorCallbackHandler''], self)
      else (None, self))"

text \<open>
  \<open>super().__init__(**data)\<close>: pydantic's constructor stores, for each field, the
  validated keyword if it was passed and the class default if it was not. The default
  of \<open>brain_settings\<close> is the \<open>BrainSettings()\<close> of line 23, the parameter \<open>settings\<close>.
  The source declares no validator and no constraint of its own.
\<close>

definition super_init :: "BrainSettings \<Rightarrow> data \<Rightarrow> BaseBrainPicking" where
  "super_init settings d =
     \<lparr> brain_settings = (case data_brain_settings d of None \<Rightarrow> settings | Some v \<Rightarrow> v),
       model_name = (case data_model_name d of None \<Rightarrow> ''gpt-3.5-turbo'' | Some v \<Rightarrow> v),
       temperature = (case data_temperature d of None \<Rightarrow> 0 | Some v \<Rightarrow> float_validator v),
       chat_id = data_chat_id d,
       brain_id = data_brain_id d,
       max_tokens = (case data_max_tokens d of None \<Rightarrow> 256 | Some v \<Rightarrow> int_validator v),
       streaming = (case data_streaming d of None \<Rightarrow> False | Some v \<Rightarrow> v),
       user_openai_api_key = data_user_openai_api_key d,
       openai_api_key = None,
       callbacks = None \<rparr>"

text \<open>
  An attribute assignment \<open>self.x = v\<close>. The source has three, all in \<open>__init__\<close>
  (lines 60, 63 and 64). On a pydantic model the assignment goes through
  \<open>BaseModel.__setattr__\<close>: \<open>Config\<close> (lines 66 to 70) sets only
  \<open>arbitrary_types_allowed\<close>, so a name that is not a field of the class raises
  \<open>ValueError\<close> and leaves the instance as it was, and a field is simply stored
  (nothing freezes it, nothing validates the value).
\<close>

datatype attr_assignment =
    Set_openai_api_key "string option"
  | Set_streaming bool
  | Set_callbacks "py_object list option"

fun attr_name :: "attr_assignment \<Rightarrow> string" where
  "attr_name (Set_openai_api_key v) = ''openai_api_key''"
| "attr_name (Set_streaming v) = ''streaming''"
| "attr_name (Set_callbacks v) = ''callbacks''"

fun store :: "BaseBrainPicking \<Rightarrow> attr_assignment \<Rightarrow> BaseBrainPicking" where
  "store self (Set_openai_api_key v) = self\<lparr>openai_api_key := v\<rparr>"
| "store self (Set_streaming v) = self\<lparr>streaming := v\<rparr>"
| "store self (Set_callbacks v) = self\<lparr>callbacks := v\<rparr>"

definition setattr ::
  "string list \<Rightarrow> BaseBrainPicking \<Rightarrow> attr_assignment \<Rightarrow> (error + unit) \<times> BaseBrainPicking"
where
  "setattr extra self a =
     (if attr_name a \<in> set (BaseBrainPicking_fields @ extra) then (Inr (), store self a)
      else (Inl (ValueError (attr_name a)), self))"

text \<open>
  \<open>__init__\<close> (lines 57 to 64), on an instance of a class with the fields \<open>extra\<close>
  besides those of \<open>BaseBrainPicking\<close>. The result is \<open>Inr ()\<close> when the body runs to
  its end, and the exception otherwise; with it comes the instance as the body left
  it. \<open>BaseBrainPicking(**data)\<close> returns that instance exactly when the result is
  \<open>Inr ()\<close>.
\<close>

definition init ::
  "string list \<Rightarrow> string list \<Rightarrow> BrainSettings \<Rightarrow> data \<Rightarrow> (error + unit) \<times> BaseBrainPicking"
where
  "init extra streaming_compatible_models settings d =
     (let self0 = super_init settings d;
          (key, self1) =
            determine_api_key self0
              (Some (BrainSettings.openai_api_key (brain_settings self0)))
              (user_openai_api_key self0);
          (r1, self2) = setattr extra self1 (Set_openai_api_key key)
      in case r1 of
           Inl e \<Rightarrow> (Inl e, self2)
         | Inr u1 \<Rightarrow>
             (let (flag, self3) =
                    determine_streaming streaming_compatible_models self2
                      (model_name self2) (streaming self2);
                  (r2, self4) = setattr extra self3 (Set_streaming flag)
              in case r2 of
                   Inl e \<Rightarrow> (Inl e, self4)
                 | Inr u2 \<Rightarrow>
                     (let (cbs, self5) = determine_callback_array self4 (streaming self4)
                      in setattr extra self5 (Set_callbacks cbs))))"

section \<open>The functions from line 73 on\<close>

text \<open>
  From line 73 on the function definitions are indented under \<open>class Config\<close>, the
  nested class of line 66, and so belong to its body. Each is embedded with the
  parameters it declares, \<open>self\<close> first where it declares one.

  A chat of the history is read through two attributes, \<open>user_message\<close> and
  \<open>assistant\<close>. Whatever else it carries (the spec's timestamp) is the extension of
  the record.
\<close>

record chat =
  user_message :: string
  assistant :: string

definition format_chat_history :: "'a chat_scheme list \<Rightarrow> (string \<times> string) list" where
  "format_chat_history history = [(user_message c, assistant c). c \<leftarrow> history]"

text \<open>
  The body of an abstract method is its docstring alone, so a call returns \<open>None\<close>,
  the one value of \<open>unit\<close>. The chains and models of the framework are opaque: \<open>'c\<close>.
\<close>

definition create_llm ::
  "BaseBrainPicking \<Rightarrow> string \<Rightarrow> bool \<Rightarrow> py_object list option
     \<Rightarrow> unit \<times> BaseBrainPicking"
where
  "create_llm self name enabled cbs = ((), self)"

definition create_question_chain :: "BaseBrainPicking \<Rightarrow> string \<Rightarrow> unit \<times> BaseBrainPicking" where
  "create_question_chain self name = ((), self)"

definition create_doc_chain :: "BaseBrainPicking \<Rightarrow> string \<Rightarrow> unit \<times> BaseBrainPicking" where
  "create_doc_chain self name = ((), self)"

definition create_qa :: "BaseBrainPicking \<Rightarrow> 'c \<Rightarrow> 'c \<Rightarrow> unit \<times> BaseBrainPicking" where
  "create_qa self question_chain document_chain = ((), self)"

definition call_chain ::
  "BaseBrainPicking \<Rightarrow> 'c \<Rightarrow> string \<Rightarrow> 'a chat_scheme list \<Rightarrow> unit \<times> BaseBrainPicking"
where
  "call_chain self chain question history = ((), self)"

text \<open>
  The two coroutines: the value is what awaiting the call gives, \<open>Inl\<close> the exception
  raised, \<open>Inr\<close> the answer (the tokens, for the stream).
\<close>

definition acall_chain ::
  "BaseBrainPicking \<Rightarrow> 'c \<Rightarrow> string \<Rightarrow> 'a chat_scheme list
     \<Rightarrow> (error + string) \<times> BaseBrainPicking"
where
  "acall_chain self chain question history =
     (Inl (NotImplementedError
        ''Async generation not implemented for this BrainPicking Class.''), self)"

definition generate_answer :: "BaseBrainPicking \<Rightarrow> string \<Rightarrow> unit \<times> BaseBrainPicking" where
  "generate_answer self question = ((), self)"

definition generate_stream ::
  "BaseBrainPicking \<Rightarrow> string \<Rightarrow> (error + string list) \<times> BaseBrainPicking"
where
  "generate_stream self question =
     (Inl (NotImplementedError
        ''Async generation not implemented for this BrainPicking Class.''), self)"

text \<open>
  Where each name is bound. The body of \<open>BaseBrainPicking\<close> (lines 23 to 66) binds the
  class attributes, the three resolvers, \<open>__init__\<close> and \<open>Config\<close>. The body of \<open>Config\<close>
  (lines 67 to 174) binds \<open>arbitrary_types_allowed\<close> and every function that follows.
\<close>

datatype py_class = BaseBrainPicking_class | Config_class

fun class_body :: "py_class \<Rightarrow> string list" where
  "class_body BaseBrainPicking_class =
     [''brain_settings'', ''model_name'', ''temperature'', ''chat_id'', ''brain_id'',
      ''max_tokens'', ''streaming'', ''user_openai_api_key'', ''_determine_api_key'',
      ''_determine_streaming'', ''_determine_callback_array'', ''__init__'', ''Config'']"
| "class_body Config_class =
     [''arbitrary_types_allowed'', ''format_chat_history'', ''_create_llm'',
      ''_create_question_chain'', ''_create_doc_chain'', ''_create_qa'', ''_call_chain'',
      ''_acall_chain'', ''generate_answer'', ''generate_stream'']"

text \<open>
  The call \<open>x._acall_chain(chain, question, history)\<close>, awaited, where the name is
  looked up in the body of the class \<open>cls\<close>: a name that the body does not bind is an
  \<open>AttributeError\<close>. With \<open>BaseBrainPicking_class\<close> this is the call on an instance
  of the class (pydantic's \<open>BaseModel\<close>, its one base, is not among the sources and is
  taken to bind neither name); with \<open>Config_class\<close> it is
  \<open>BaseBrainPicking.Config._acall_chain(self, chain, question, history)\<close>. Likewise
  for \<open>generate_stream\<close>.
\<close>

definition call_acall_chain ::
  "py_class \<Rightarrow> BaseBrainPicking \<Rightarrow> 'c \<Rightarrow> string \<Rightarrow> 'a chat_scheme list
     \<Rightarrow> (error + string) \<times> BaseBrainPicking"
where
  "call_acall_chain cls self chain question history =
     (if ''_acall_chain'' \<in> set (class_body cls) then acall_chain self chain question history
      else (Inl (AttributeError ''_acall_chain''), self))"

definition call_generate_stream ::
  "py_class \<Rightarrow> BaseBrainPicking \<Rightarrow> string \<Rightarrow> (error + string list) \<times> BaseBrainPicking"
where
  "call_generate_stream cls self question =
     (if ''generate_stream'' \<in> set (class_body cls) then generate_stream self question
      else (Inl (AttributeError ''generate_stream''), self))"

section \<open>What can be done to an instance\<close>

text \<open>
  An operation on a constructed instance is a call of one of the functions of the
  class, \<open>__init__\<close> among them, or an attribute assignment of the kind \<open>__init__\<close>
  performs. \<open>invoke\<close> gives the instance afterwards, whether the operation returned or
  raised; \<open>run\<close> does so for a sequence of operations.
\<close>

datatype ('c, 'a) operation =
    Init data
  | Determine_api_key "string option" "string option"
  | Determine_streaming string bool
  | Determine_callback_array bool
  | Format_chat_history "'a chat_scheme list"
  | Create_llm string bool "py_object list option"
  | Create_question_chain string
  | Create_doc_chain string
  | Create_qa 'c 'c
  | Call_chain 'c string "'a chat_scheme list"
  | Acall_chain 'c string "'a chat_scheme list"
  | Generate_answer string
  | Generate_stream string
  | Assign attr_assignment

text \<open>The calls of a function other than \<open>__init__\<close>.\<close>

fun other_call :: "('c, 'a) operation \<Rightarrow> bool" where
  "other_call (Init d) = False"
| "other_call (Assign a) = False"
| "other_call other = True"

fun invoke ::
  "string list \<Rightarrow> string list \<Rightarrow> BrainSettings \<Rightarrow> BaseBrainPicking \<Rightarrow> ('c, 'a) operation
     \<Rightarrow> BaseBrainPicking"
where
  "invoke extra ms settings self (Init d) = snd (init extra ms settings d)"
| "invoke extra ms settings self (Determine_api_key k u) = snd (determine_api_key self k u)"
| "invoke extra ms settings self (Determine_streaming n r) = snd (determine_streaming ms self n r)"
| "invoke extra ms settings self (Determine_callback_array e) = snd (determine_callback_array self e)"
| "invoke extra ms settings self (Format_chat_history h) = self"
| "invoke extra ms settings self (Create_llm n e c) = snd (create_llm self n e c)"
| "invoke extra ms settings self (Create_question_chain n) = snd (create_question_chain self n)"
| "invoke extra ms settings self (Create_doc_chain n) = snd (create_doc_chain self n)"
| "invoke extra ms settings self (Create_qa q dc) = snd (create_qa self q dc)"
| "invoke extra ms settings self (Call_chain c q h) = snd (call_chain self c q h)"
| "invoke extra ms settings self (Acall_chain c q h) = snd (acall_chain self c q h)"
| "invoke extra ms settings self (Generate_answer q) = snd (generate_answer self q)"
| "invoke extra ms settings self (Generate_stream q) = snd (generate_stream self q)"
| "invoke extra ms settings self (Assign a) = snd (setattr extra self a)"

definition run ::
  "string list \<Rightarrow> string list \<Rightarrow> BrainSettings \<Rightarrow> BaseBrainPicking \<Rightarrow> ('c, 'a) operation list
     \<Rightarrow> BaseBrainPicking"
where
  "run extra ms settings self ops = foldl (invoke extra ms settings) self ops"

text \<open>The configuration the spec lists: model name, temperature, chat id, brain id,
  max tokens, streaming flag and the two API keys.\<close>

definition config ::
  "BaseBrainPicking \<Rightarrow>
     string \<times> real \<times> string option \<times> string option \<times> int \<times> bool
       \<times> string option \<times> string option"
where
  "config self =
     (model_name self, temperature self, chat_id self, brain_id self, max_tokens self,
      streaming self, user_openai_api_key self, BaseBrainPicking.openai_api_key self)"

section \<open>The API key\<close>

text \<open>
  C2. For every default key (a string) and every user key, \<open>_determine_api_key\<close>
  returns the user key exactly when the user key is not \<open>None\<close>, and the default key
  otherwise. It has no error case (its result is always one of its two arguments) and
  leaves the instance as it was.
\<close>

theorem determine_api_key_user_else_default:
  "((fst (determine_api_key self (Some default_key) user_key) = user_key) = (user_key \<noteq> None))
   \<and> fst (determine_api_key self api_key (Some k)) = Some k
   \<and> fst (determine_api_key self api_key None) = api_key
   \<and> snd (determine_api_key self api_key user_key) = self"
  by (auto simp: determine_api_key_def)

text \<open>
  C10. The test is \<open>is not None\<close>, not emptiness: with the empty string as the user key,
  the result is the empty string for every default key, so it is the default key only
  when that is the empty string too.
\<close>

theorem determine_api_key_empty_string:
  "fst (determine_api_key self api_key (Some [])) = Some []
   \<and> ((fst (determine_api_key self (Some default_key) (Some [])) = Some default_key)
        = (default_key = []))"
  by (auto simp: determine_api_key_def)

section \<open>Streaming and callbacks\<close>

text \<open>
  C3. For every model name, \<open>_determine_streaming\<close> returns \<open>True\<close> exactly when streaming
  is requested and the name is in \<open>streaming_compatible_models\<close>; with streaming not
  requested it returns \<open>False\<close> whatever the name.
\<close>

theorem determine_streaming_iff:
  "fst (determine_streaming streaming_compatible_models self name requested)
     = (requested \<and> name \<in> set streaming_compatible_models)
   \<and> fst (determine_streaming streaming_compatible_models self name True)
     = (name \<in> set streaming_compatible_models)
   \<and> fst (determine_streaming streaming_compatible_models self name False) = False"
  by (simp add: determine_streaming_def)

text \<open>
  C4. With streaming enabled \<open>_determine_callback_array\<close> returns a one-element list,
  and \<open>None\<close> without. The element is the class \<open>AsyncIteratorCallbackHandler\<close> itself
  (line 55 does not call it), not a handler, that is an instance of it, whatever the
  class of the instance.
\<close>

theorem determine_callback_array_returns_class:
  "fst (determine_callback_array self True) = Some [Class_object ''AsyncIteratorCallbackHandler'']
   \<and> (\<forall>c. fst (determine_callback_array self True) \<noteq> Some [Instance_of c])
   \<and> fst (determine_callback_array self False) = None"
  by (simp add: determine_callback_array_def)

section \<open>Construction\<close>

lemma field_names:
  "''openai_api_key'' \<notin> set BaseBrainPicking_fields"
  "''callbacks'' \<notin> set BaseBrainPicking_fields"
  "''streaming'' \<in> set BaseBrainPicking_fields"
  unfolding BaseBrainPicking_fields_def by simp_all

lemma setattr_cases:
  "setattr extra self (Set_openai_api_key v) =
     (if ''openai_api_key'' \<in> set extra then (Inr (), self\<lparr>openai_api_key := v\<rparr>)
      else (Inl (ValueError ''openai_api_key''), self))"
  "setattr extra self (Set_streaming b) = (Inr (), self\<lparr>streaming := b\<rparr>)"
  "setattr extra self (Set_callbacks c) =
     (if ''callbacks'' \<in> set extra then (Inr (), self\<lparr>callbacks := c\<rparr>)
      else (Inl (ValueError ''callbacks''), self))"
  by (simp_all add: setattr_def field_names)

lemma determine_api_key_eq:
  "determine_api_key self api_key user_api_key =
     ((case user_api_key of None \<Rightarrow> api_key | Some k \<Rightarrow> Some k), self)"
  by (cases user_api_key) (simp_all add: determine_api_key_def)

lemma super_init_sel:
  "brain_settings (super_init settings d) = (case data_brain_settings d of None \<Rightarrow> settings | Some v \<Rightarrow> v)"
  "streaming (super_init settings d) = (case data_streaming d of None \<Rightarrow> False | Some v \<Rightarrow> v)"
  "user_openai_api_key (super_init settings d) = data_user_openai_api_key d"
  "temperature (super_init settings d) = (case data_temperature d of None \<Rightarrow> 0 | Some v \<Rightarrow> float_validator v)"
  "max_tokens (super_init settings d) = (case data_max_tokens d of None \<Rightarrow> 256 | Some v \<Rightarrow> int_validator v)"
  by (simp_all add: super_init_def)

lemma init_eq:
  "init extra ms settings d =
     (if ''openai_api_key'' \<notin> set extra
      then (Inl (ValueError ''openai_api_key''), super_init settings d)
      else if ''callbacks'' \<notin> set extra
      then (Inl (ValueError ''callbacks''),
            (super_init settings d)
              \<lparr> openai_api_key :=
                  (case user_openai_api_key (super_init settings d) of
                     None \<Rightarrow> Some (BrainSettings.openai_api_key (brain_settings (super_init settings d)))
                   | Some k \<Rightarrow> Some k),
                streaming :=
                  (model_name (super_init settings d) \<in> set ms \<and> streaming (super_init settings d)) \<rparr>)
      else (Inr (),
            (super_init settings d)
              \<lparr> openai_api_key :=
                  (case user_openai_api_key (super_init settings d) of
                     None \<Rightarrow> Some (BrainSettings.openai_api_key (brain_settings (super_init settings d)))
                   | Some k \<Rightarrow> Some k),
                streaming :=
                  (model_name (super_init settings d) \<in> set ms \<and> streaming (super_init settings d)),
                callbacks :=
                  (if model_name (super_init settings d) \<in> set ms \<and> streaming (super_init settings d)
                   then Some [Class_object ''AsyncIteratorCallbackHandler''] else None) \<rparr>))"
  unfolding init_def Let_def determine_api_key_eq determine_streaming_def
    determine_callback_array_def setattr_cases
  by (auto cong: option.case_cong)

lemma init_returns_iff:
  "(fst (init extra ms settings d) = Inr ())
     = (''openai_api_key'' \<in> set extra \<and> ''callbacks'' \<in> set extra)"
  by (simp add: init_eq)

lemma init_base_class_raises:
  "fst (init [] ms settings d) = Inl (ValueError ''openai_api_key'')"
  by (simp add: init_eq)

text \<open>
  C1. \<open>__init__\<close> runs to its end, and the constructor returns an instance, exactly for
  a class that declares \<open>openai_api_key\<close> and \<open>callbacks\<close> as fields; on
  \<open>BaseBrainPicking\<close> itself, which declares neither, the assignment of line 60 raises
  \<open>ValueError\<close> and there is no instance. Right after construction, the streaming flag
  of the instance is the conjunction of the flag that was requested (the keyword
  \<open>streaming\<close>, \<open>False\<close> when it is not passed) and of \<open>model_name\<close> being in
  \<open>streaming_compatible_models\<close>; its \<open>openai_api_key\<close> is the user's key when there is
  one, and the key of its \<open>brain_settings\<close> otherwise, which are those of line 23
  unless the keyword \<open>brain_settings\<close> is passed.
\<close>

theorem init_effective_streaming_and_key:
  "((\<exists>self. init extra ms settings d = (Inr (), self))
      = (''openai_api_key'' \<in> set extra \<and> ''callbacks'' \<in> set extra))
   \<and> (\<forall>self. init extra ms settings d = (Inr (), self) \<longrightarrow>
         streaming self
           = ((case data_streaming d of None \<Rightarrow> False | Some v \<Rightarrow> v) \<and> model_name self \<in> set ms)
       \<and> BaseBrainPicking.openai_api_key self
           = (case user_openai_api_key self of
                Some k \<Rightarrow> Some k
              | None \<Rightarrow> Some (BrainSettings.openai_api_key (brain_settings self)))
       \<and> user_openai_api_key self = data_user_openai_api_key d
       \<and> brain_settings self = (case data_brain_settings d of None \<Rightarrow> settings | Some v \<Rightarrow> v))"
  unfolding init_eq
  by (auto simp: super_init_sel split: option.splits)

text \<open>On a subclass with the two fields: \<open>gpt-3.5-turbo\<close> in the list, streaming requested,
  a user key. The instance streams and holds the user key.\<close>

theorem init_effective_streaming_and_key_witness:
  "fst (init [''openai_api_key'', ''callbacks''] [''gpt-3.5-turbo'']
          \<lparr>BrainSettings.openai_api_key = ''sk-env''\<rparr>
          \<lparr>data_brain_settings = None, data_model_name = Some ''gpt-3.5-turbo'',
           data_temperature = None, data_chat_id = None, data_brain_id = None,
           data_max_tokens = None, data_streaming = Some True,
           data_user_openai_api_key = Some ''sk-user''\<rparr>) = Inr ()
   \<and> streaming (snd (init [''openai_api_key'', ''callbacks''] [''gpt-3.5-turbo'']
          \<lparr>BrainSettings.openai_api_key = ''sk-env''\<rparr>
          \<lparr>data_brain_settings = None, data_model_name = Some ''gpt-3.5-turbo'',
           data_temperature = None, data_chat_id = None, data_brain_id = None,
           data_max_tokens = None, data_streaming = Some True,
           data_user_openai_api_key = Some ''sk-user''\<rparr>))
   \<and> BaseBrainPicking.openai_api_key (snd (init [''openai_api_key'', ''callbacks''] [''gpt-3.5-turbo'']
          \<lparr>BrainSettings.openai_api_key = ''sk-env''\<rparr>
          \<lparr>data_brain_settings = None, data_model_name = Some ''gpt-3.5-turbo'',
           data_temperature = None, data_chat_id = None, data_brain_id = None,
           data_max_tokens = None, data_streaming = Some True,
           data_user_openai_api_key = Some ''sk-user''\<rparr>)) = Some ''sk-user''"
proof -
  let ?d = "\<lparr>data_brain_settings = None, data_model_name = Some ''gpt-3.5-turbo'',
           data_temperature = None, data_chat_id = None, data_brain_id = None,
           data_max_tokens = None, data_streaming = Some True,
           data_user_openai_api_key = Some ''sk-user''\<rparr>"
  let ?r = "init [''openai_api_key'', ''callbacks''] [''gpt-3.5-turbo'']
          \<lparr>BrainSettings.openai_api_key = ''sk-env''\<rparr> ?d"
  note t = init_effective_streaming_and_key
    [of "[''openai_api_key'', ''callbacks'']" "[''gpt-3.5-turbo'']"
        "\<lparr>BrainSettings.openai_api_key = ''sk-env''\<rparr>" ?d]
  from t have "\<exists>self. ?r = (Inr (), self)" by simp
  then obtain self where r: "?r = (Inr (), self)" ..
  from t r have "streaming self = (True \<and> model_name self \<in> set [''gpt-3.5-turbo''])"
    and "BaseBrainPicking.openai_api_key self
       = (case user_openai_api_key self of Some k \<Rightarrow> Some k
          | None \<Rightarrow> Some (BrainSettings.openai_api_key (brain_settings self)))"
    and "user_openai_api_key self = Some ''sk-user''"
    by simp_all
  moreover have "model_name self = ''gpt-3.5-turbo''"
    using r by (auto simp: init_eq super_init_def)
  ultimately show ?thesis using r by simp
qed




section \<open>Purity of the resolvers\<close>

text \<open>
  C8. \<open>_determine_api_key\<close> and \<open>_determine_streaming\<close> are functions of their arguments
  alone: the result does not depend on the instance they are called on, a second call
  with the same arguments gives the same result as the first, and the instance is the
  same after each call.
\<close>

theorem resolvers_deterministic:
  "fst (determine_api_key self api_key user_key) = fst (determine_api_key self' api_key user_key)
   \<and> fst (determine_streaming ms self name requested)
       = fst (determine_streaming ms self' name requested)
   \<and> (case determine_api_key self api_key user_key of
         (r1, s1) \<Rightarrow> (case determine_api_key s1 api_key user_key of
           (r2, s2) \<Rightarrow> r1 = r2 \<and> s1 = self \<and> s2 = self))
   \<and> (case determine_streaming ms self name requested of
         (r1, s1) \<Rightarrow> (case determine_streaming ms s1 name requested of
           (r2, s2) \<Rightarrow> r1 = r2 \<and> s1 = self \<and> s2 = self))"
  by (simp add: determine_api_key_def determine_streaming_def)

section \<open>The chat history\<close>

lemma format_chat_history_map:
  "format_chat_history history = map (\<lambda>c. (user_message c, assistant c)) history"
  by (induction history) (simp_all add: format_chat_history_def)

text \<open>
  C9. \<open>format_chat_history\<close> returns a list as long as the history, in the same order:
  its \<open>i\<close>-th element is the pair of the \<open>user_message\<close> and the \<open>assistant\<close> of the
  \<open>i\<close>-th chat. Nothing else of a chat reaches the result: the history stripped of every
  other attribute (the timestamp among them) gives the same list.
\<close>

theorem format_chat_history_pairs:
  "length (format_chat_history history) = length history
   \<and> (\<forall>i < length history.
        format_chat_history history ! i = (user_message (history ! i), assistant (history ! i)))
   \<and> format_chat_history (map chat.truncate history) = format_chat_history history"
  by (simp add: format_chat_history_map chat.truncate_def)

text \<open>A history of two chats, each with a timestamp: the second element of the result.\<close>

theorem format_chat_history_pairs_witness:
  "format_chat_history
     [\<lparr>user_message = ''What is X?'', assistant = ''X is Y'', \<dots> = (1690000000 :: nat)\<rparr>,
      \<lparr>user_message = ''Hi'', assistant = ''Hello'', \<dots> = 1690000060\<rparr>] ! 1
   = (''Hi'', ''Hello'')"
proof -
  let ?h = "[\<lparr>user_message = ''What is X?'', assistant = ''X is Y'', \<dots> = (1690000000 :: nat)\<rparr>,
      \<lparr>user_message = ''Hi'', assistant = ''Hello'', \<dots> = 1690000060\<rparr>]"
  have "\<forall>i < length ?h. format_chat_history ?h ! i = (user_message (?h ! i), assistant (?h ! i))"
    using format_chat_history_pairs [of ?h] by (elim conjE)
  moreover have "1 < length ?h" by simp
  ultimately have "format_chat_history ?h ! 1 = (user_message (?h ! 1), assistant (?h ! 1))"
    by blast
  then show ?thesis by simp
qed

section \<open>The asynchronous entry points\<close>

lemma async_bodies_raise:
  "fst (acall_chain self chain question history)
     = Inl (NotImplementedError ''Async generation not implemented for this BrainPicking Class.'')
   \<and> fst (generate_stream self question)
     = Inl (NotImplementedError ''Async generation not implemented for this BrainPicking Class.'')"
  by (simp add: acall_chain_def generate_stream_def)

text \<open>
  C5. The body of \<open>_acall_chain\<close> and the body of \<open>generate_stream\<close> raise
  \<open>NotImplementedError\<close> whatever the question and the history, and called through
  \<open>Config\<close>, where they are bound, that is what the calls give. On an instance of the
  class itself neither name is bound: the calls end in \<open>AttributeError\<close>, not in
  \<open>NotImplementedError\<close>.
\<close>

theorem async_entry_points_on_base_class:
  "fst (call_acall_chain BaseBrainPicking_class self chain question history)
     = Inl (AttributeError ''_acall_chain'')
   \<and> fst (call_generate_stream BaseBrainPicking_class self question)
     = Inl (AttributeError ''generate_stream'')
   \<and> fst (call_acall_chain Config_class self chain question history)
     = Inl (NotImplementedError ''Async generation not implemented for this BrainPicking Class.'')
   \<and> fst (call_generate_stream Config_class self question)
     = Inl (NotImplementedError ''Async generation not implemented for this BrainPicking Class.'')"
  by (simp add: call_acall_chain_def call_generate_stream_def async_bodies_raise)

section \<open>The configuration after construction\<close>

lemma other_call_keeps_instance:
  "other_call op \<Longrightarrow> invoke extra ms settings self op = self"
  by (cases op)
    (simp_all add: determine_api_key_def determine_streaming_def determine_callback_array_def
      create_llm_def create_question_chain_def create_doc_chain_def create_qa_def
      call_chain_def acall_chain_def generate_answer_def generate_stream_def)

lemma other_calls_keep_instance:
  "\<forall>op \<in> set ops. other_call op \<Longrightarrow> foldl (invoke extra ms settings) self ops = self"
  by (induction ops) (simp_all add: other_call_keeps_instance)

lemma config_no_keywords:
  "config (snd (init [''openai_api_key'', ''callbacks''] [''gpt-3.5-turbo'']
      \<lparr>BrainSettings.openai_api_key = ''sk-env''\<rparr>
      \<lparr>data_brain_settings = None, data_model_name = None, data_temperature = None,
       data_chat_id = None, data_brain_id = None, data_max_tokens = None,
       data_streaming = None, data_user_openai_api_key = None\<rparr>))
   = (''gpt-3.5-turbo'', 0, None, None, 256, False, None, Some ''sk-env'')"
  by (simp add: init_eq super_init_def config_def)

text \<open>
  C6 (as amended). No function that the class defines, other than \<open>__init__\<close>,
  changes a configuration field of a constructed instance: after any sequence of such
  calls the instance, and so its configuration, is what it was. The configuration is
  not immutable: an assignment to a field and a further call of \<open>__init__\<close> are not
  covered.
\<close>

theorem calls_preserve_config:
  assumes "\<forall>op \<in> set ops. other_call op"
  shows "run extra ms settings self ops = self
    \<and> config (run extra ms settings self ops) = config self"
  using assms by (simp add: run_def other_calls_keep_instance)

text \<open>Five calls on a constructed instance of a subclass with the two fields, two of
  them raising: the configuration is that of the constructor.\<close>

theorem calls_preserve_config_witness:
  "fst (init [''openai_api_key'', ''callbacks''] [''gpt-3.5-turbo'']
      \<lparr>BrainSettings.openai_api_key = ''sk-env''\<rparr>
      \<lparr>data_brain_settings = None, data_model_name = None, data_temperature = None,
       data_chat_id = None, data_brain_id = None, data_max_tokens = None,
       data_streaming = None, data_user_openai_api_key = None\<rparr>) = Inr ()
   \<and> config (run [''openai_api_key'', ''callbacks''] [''gpt-3.5-turbo'']
        \<lparr>BrainSettings.openai_api_key = ''sk-env''\<rparr>
        (snd (init [''openai_api_key'', ''callbacks''] [''gpt-3.5-turbo'']
           \<lparr>BrainSettings.openai_api_key = ''sk-env''\<rparr>
           \<lparr>data_brain_settings = None, data_model_name = None, data_temperature = None,
            data_chat_id = None, data_brain_id = None, data_max_tokens = None,
            data_streaming = None, data_user_openai_api_key = None\<rparr>))
        [Determine_streaming ''gpt-3.5-turbo'' True, Generate_stream ''Hi'',
         Acall_chain () ''Hi'' [], Create_qa () (),
         Determine_api_key None (Some ''sk-user'') :: (unit, unit) operation])
     = (''gpt-3.5-turbo'', 0, None, None, 256, False, None, Some ''sk-env'')"
proof -
  let ?ops = "[Determine_streaming ''gpt-3.5-turbo'' True, Generate_stream ''Hi'',
         Acall_chain () ''Hi'' [], Create_qa () (),
         Determine_api_key None (Some ''sk-user'') :: (unit, unit) operation]"
  let ?self = "snd (init [''openai_api_key'', ''callbacks''] [''gpt-3.5-turbo'']
           \<lparr>BrainSettings.openai_api_key = ''sk-env''\<rparr>
           \<lparr>data_brain_settings = None, data_model_name = None, data_temperature = None,
            data_chat_id = None, data_brain_id = None, data_max_tokens = None,
            data_streaming = None, data_user_openai_api_key = None\<rparr>)"
  have h: "\<forall>op \<in> set ?ops. other_call op" by simp
  have "config (run [''openai_api_key'', ''callbacks''] [''gpt-3.5-turbo'']
        \<lparr>BrainSettings.openai_api_key = ''sk-env''\<rparr> ?self ?ops) = config ?self"
    using calls_preserve_config [OF h] by (rule conjunct2)
  also have "\<dots> = (''gpt-3.5-turbo'', 0, None, None, 256, False, None, Some ''sk-env'')"
    by (rule config_no_keywords)
  finally show ?thesis by (simp add: init_returns_iff)
qed

text \<open>
  The claim as it stands, for every operation, fails: on a constructed instance of a
  subclass with the two fields, whose streaming flag is \<open>False\<close>, the assignment
  \<open>self.streaming = True\<close> (the statement of line 63) leaves a different configuration.
\<close>

theorem assignment_changes_config:
  "fst (init [''openai_api_key'', ''callbacks''] [''gpt-3.5-turbo'']
      \<lparr>BrainSettings.openai_api_key = ''sk-env''\<rparr>
      \<lparr>data_brain_settings = None, data_model_name = None, data_temperature = None,
       data_chat_id = None, data_brain_id = None, data_max_tokens = None,
       data_streaming = None, data_user_openai_api_key = None\<rparr>) = Inr ()
   \<and> config (run [''openai_api_key'', ''callbacks''] [''gpt-3.5-turbo'']
        \<lparr>BrainSettings.openai_api_key = ''sk-env''\<rparr>
        (snd (init [''openai_api_key'', ''callbacks''] [''gpt-3.5-turbo'']
           \<lparr>BrainSettings.openai_api_key = ''sk-env''\<rparr>
           \<lparr>data_brain_settings = None, data_model_name = None, data_temperature = None,
            data_chat_id = None, data_brain_id = None, data_max_tokens = None,
            data_streaming = None, data_user_openai_api_key = None\<rparr>))
        [Assign (Set_streaming True) :: (unit, unit) operation])
     \<noteq> config (snd (init [''openai_api_key'', ''callbacks''] [''gpt-3.5-turbo'']
           \<lparr>BrainSettings.openai_api_key = ''sk-env''\<rparr>
           \<lparr>data_brain_settings = None, data_model_name = None, data_temperature = None,
            data_chat_id = None, data_brain_id = None, data_max_tokens = None,
            data_streaming = None, data_user_openai_api_key = None\<rparr>))"
  by (simp add: init_eq super_init_def config_def run_def setattr_cases)

text \<open>So does a second call of \<open>__init__\<close>, here with \<open>max_tokens=512\<close>.\<close>

lemma init_again_changes_config:
  "config (run [''openai_api_key'', ''callbacks''] [''gpt-3.5-turbo'']
        \<lparr>BrainSettings.openai_api_key = ''sk-env''\<rparr>
        (snd (init [''openai_api_key'', ''callbacks''] [''gpt-3.5-turbo'']
           \<lparr>BrainSettings.openai_api_key = ''sk-env''\<rparr>
           \<lparr>data_brain_settings = None, data_model_name = None, data_temperature = None,
            data_chat_id = None, data_brain_id = None, data_max_tokens = None,
            data_streaming = None, data_user_openai_api_key = None\<rparr>))
        [Init \<lparr>data_brain_settings = None, data_model_name = None, data_temperature = None,
            data_chat_id = None, data_brain_id = None, data_max_tokens = Some (PyInt 512),
            data_streaming = None, data_user_openai_api_key = None\<rparr> :: (unit, unit) operation])
     \<noteq> config (snd (init [''openai_api_key'', ''callbacks''] [''gpt-3.5-turbo'']
           \<lparr>BrainSettings.openai_api_key = ''sk-env''\<rparr>
           \<lparr>data_brain_settings = None, data_model_name = None, data_temperature = None,
            data_chat_id = None, data_brain_id = None, data_max_tokens = None,
            data_streaming = None, data_user_openai_api_key = None\<rparr>))"
  by (simp add: init_eq super_init_def config_def run_def)

end
